theory Spec2Isabelle
  imports Main
begin

section \<open>XML elements\<close>

text \<open>
  An element of \<^verbatim>\<open>xml.etree\<close>: its tag, its attribute dictionary, its text and its
  child elements in document order. Tags and the names looked up are qualified names
  \<^verbatim>\<open>{namespace}Local\<close>; no path syntax is used by the services.
\<close>

datatype element =
  Element (tag: string) (attrib: "(string \<times> string) list") (text_of: "string option")
    (children: "element list")

text \<open>\<^verbatim>\<open>elem.get(key)\<close>: the attribute, or \<^verbatim>\<open>None\<close>.\<close>

definition get :: "element \<Rightarrow> string \<Rightarrow> string option" where
  "get elem key = map_of (attrib elem) key"

text \<open>\<^verbatim>\<open>elem.findall(name)\<close>: the direct children with that tag, in document order.\<close>

definition findall :: "element \<Rightarrow> string \<Rightarrow> element list" where
  "findall elem name = filter (\<lambda>c. tag c = name) (children elem)"

text \<open>\<^verbatim>\<open>elem.find(name)\<close>: the first direct child with that tag, or \<^verbatim>\<open>None\<close>.\<close>

definition find_elem :: "element \<Rightarrow> string \<Rightarrow> element option" where
  "find_elem elem name = (case findall elem name of [] \<Rightarrow> None | c # _ \<Rightarrow> Some c)"

text \<open>
  Modelled from the spec: \<^verbatim>\<open>get_xml_attr\<close> of module \<^verbatim>\<open>util\<close>, which is not among the
  sources. It reads a child element of a response (\<^verbatim>\<open>ResponseCode\<close>, \<^verbatim>\<open>MessageText\<close>,
  \<^verbatim>\<open>MessageXml\<close>): the text of the first child of that name, and \<^verbatim>\<open>None\<close> when the
  child is absent or its text is empty.
\<close>

definition get_xml_attr :: "element \<Rightarrow> string \<Rightarrow> string option" where
  "get_xml_attr tree name =
     (case find_elem tree name of
        None \<Rightarrow> None
      | Some elem \<Rightarrow>
          (case text_of elem of
             None \<Rightarrow> None
           | Some t \<Rightarrow> if t = [] then None else Some t))"

section \<open>Python values and exceptions\<close>

text \<open>What \<^verbatim>\<open>'%s' % v\<close> prints for a value that is a string or \<^verbatim>\<open>None\<close>.\<close>

definition str :: "string option \<Rightarrow> string" where
  "str v = (case v of None \<Rightarrow> ''None'' | Some s \<Rightarrow> s)"

text \<open>Python's truth value of a string or \<^verbatim>\<open>None\<close>: \<^verbatim>\<open>not v\<close>.\<close>

definition falsy :: "string option \<Rightarrow> bool" where
  "falsy v = (v = None \<or> v = Some [])"

text \<open>
  The exceptions the services raise. \<open>EWSError cls value\<close> is an instance of the class
  bound to the name \<open>cls\<close> in module \<^verbatim>\<open>errors\<close>, built from \<open>value\<close>:
  \<^verbatim>\<open>TransportError\<close>, \<^verbatim>\<open>SOAPError\<close>, \<^verbatim>\<open>EWSWarning\<close> and the classes named after
  response codes all live there. The others are Python's built-in exceptions.
\<close>

datatype exn =
    EWSError string "string option"
  | NotImplementedError string
  | AssertionError
  | AttributeError
  | TypeError
  | ValueError

text \<open>
  What a name is bound to in \<^verbatim>\<open>vars(errors)\<close>. The module is not among the sources, so
  its bindings are a parameter: a name is bound to an exception class (which an
  \<^verbatim>\<open>except\<close> clause naming it catches), to an object that cannot be called (every
  module binds \<^verbatim>\<open>__name__\<close> to a string, for one), or is not bound.
\<close>

datatype binding = ErrorClass | NotCallable

text \<open>
  The collaborators of the services that are not among the sources: the namespace
  constants of module \<^verbatim>\<open>transport\<close>, the bindings of module \<^verbatim>\<open>errors\<close>, and the
  serialisation \<^verbatim>\<open>tostring\<close> of \<^verbatim>\<open>xml.etree\<close>, which only error messages use.
\<close>

record env =
  SOAPNS :: string
  MNS :: string
  TNS :: string
  ENS :: string
  errors :: "string \<Rightarrow> binding option"
  tostring :: "element \<Rightarrow> string"

definition qname :: "string \<Rightarrow> string \<Rightarrow> string" where
  "qname ns name = ''{'' @ ns @ ''}'' @ name"

text \<open>\<^verbatim>\<open>raise vars(errors)[code](value)\<close> inside \<^verbatim>\<open>try: ... except KeyError\<close>: the
  exception raised, or \<open>None\<close> when the lookup fails with \<^verbatim>\<open>KeyError\<close>. Looking up
  \<^verbatim>\<open>None\<close> fails, no name being \<^verbatim>\<open>None\<close>; calling an object that is not callable is a
  \<^verbatim>\<open>TypeError\<close>.\<close>

definition raise_by_name :: "env \<Rightarrow> string option \<Rightarrow> string option \<Rightarrow> exn option" where
  "raise_by_name env code val =
     (case code of
        None \<Rightarrow> None
      | Some c \<Rightarrow>
          (case errors env c of
             None \<Rightarrow> None
           | Some ErrorClass \<Rightarrow> Some (EWSError c val)
           | Some NotCallable \<Rightarrow> Some TypeError))"

section \<open>The service dispatcher\<close>

text \<open>
  A service object: the class attributes of \<^verbatim>\<open>EWSService\<close> and its instance attribute
  \<^verbatim>\<open>element_name\<close>, the fields of its protocol that the services read, and the class
  whose \<^verbatim>\<open>_get_elements_in_container\<close> it runs.
\<close>

datatype service_class = EWSService_class | GetServerTimeZones_class

record service =
  service_class :: service_class
  SERVICE_NAME :: string
  element_container_name :: "string option"
  element_name :: "string option"
  extra_element_names :: "string list"
  ews_url :: string
  major_version :: int

text \<open>What \<^verbatim>\<open>_get_element_container\<close> returns: \<^verbatim>\<open>True\<close> or the container element.\<close>

datatype container = PyTrue | PyElement element

text \<open>
  An entry of the list a service returns: an element found in a container, a status
  tuple \<^verbatim>\<open>(success, message)\<close>, or a time zone tuple \<^verbatim>\<open>(id, name)\<close>.
\<close>

datatype outcome =
    Found element
  | Status bool "string option"
  | TimeZone "string option" "string option"

text \<open>\<^verbatim>\<open>EWSService._raise_errors\<close>\<close>

definition raise_errors ::
  "env \<Rightarrow> string option \<Rightarrow> string option \<Rightarrow> string option \<Rightarrow> exn + container" where
  "raise_errors env code msg_text msg_xml =
     (if code = Some ''NoError'' then Inr PyTrue
      else if falsy code then
        Inl (EWSError ''TransportError''
          (Some (''Empty ResponseCode in ResponseMessage (MessageText: '' @ str msg_text
                 @ '', MessageXml: '' @ str msg_xml @ '')'')))
      else
        (case raise_by_name env code msg_text of
           Some e \<Rightarrow> Inl e
         | None \<Rightarrow>
             Inl (EWSError ''TransportError''
               (Some (''Unknown ResponseCode in ResponseMessage: '' @ str code
                      @ '' (MessageText: '' @ str msg_text @ '', MessageXml: ''
                      @ str msg_xml @ '')'')))))"

text \<open>\<^verbatim>\<open>EWSService._raise_warnings\<close>: \<^verbatim>\<open>ErrorBatchProcessingStopped\<close> becomes an
  \<^verbatim>\<open>EWSWarning\<close> with the same value; everything else passes.\<close>

definition raise_warnings ::
  "env \<Rightarrow> string option \<Rightarrow> string option \<Rightarrow> string option \<Rightarrow> exn + container" where
  "raise_warnings env code msg_text msg_xml =
     (case raise_errors env code msg_text msg_xml of
        Inl (EWSError cls v) \<Rightarrow>
          if cls = ''ErrorBatchProcessingStopped'' then Inl (EWSError ''EWSWarning'' v)
          else Inl (EWSError cls v)
      | r \<Rightarrow> r)"

text \<open>\<^verbatim>\<open>EWSService._get_element_container\<close>\<close>

definition get_element_container ::
  "env \<Rightarrow> element \<Rightarrow> string option \<Rightarrow> exn + container" where
  "get_element_container env message name =
     (let response_class = get message ''ResponseClass'';
          response_code = get_xml_attr message (qname (MNS env) ''ResponseCode'');
          msg_text = get_xml_attr message (qname (MNS env) ''MessageText'');
          msg_xml = get_xml_attr message (qname (MNS env) ''MessageXml'')
      in
        if response_class = Some ''Success'' \<and> response_code = Some ''NoError'' then
          (case name of
             None \<Rightarrow> Inr PyTrue
           | Some n \<Rightarrow>
               if n = [] then Inr PyTrue
               else
                 (case find_elem message n of
                    None \<Rightarrow>
                      Inl (EWSError ''TransportError''
                        (Some (''No '' @ n @ '' elements in ResponseMessage (''
                               @ tostring env message @ '')'')))
                  | Some c \<Rightarrow> Inr (PyElement c)))
        else if response_class = Some ''Warning'' then
          raise_warnings env response_code msg_text msg_xml
        else raise_errors env response_code msg_text msg_xml)"

text \<open>\<^verbatim>\<open>EWSService._get_elements_in_container\<close>, and its override in
  \<^verbatim>\<open>GetServerTimeZones\<close>. \<^verbatim>\<open>findall(None)\<close> is a \<^verbatim>\<open>TypeError\<close>.\<close>

definition EWSService_get_elements_in_container ::
  "service \<Rightarrow> element \<Rightarrow> exn + outcome list" where
  "EWSService_get_elements_in_container svc c =
     (case element_name svc of
        None \<Rightarrow> Inl TypeError
      | Some n \<Rightarrow>
          Inr (map Found (findall c n @ concat (map (findall c) (extra_element_names svc)))))"

definition GetServerTimeZones_get_elements_in_container ::
  "service \<Rightarrow> element \<Rightarrow> exn + outcome list" where
  "GetServerTimeZones_get_elements_in_container svc c =
     (case element_name svc of
        None \<Rightarrow> Inl TypeError
      | Some n \<Rightarrow>
          Inr (map (\<lambda>timezonedef. TimeZone (get timezonedef ''Id'') (get timezonedef ''Name''))
                 (findall c n)))"

definition get_elements_in_container :: "service \<Rightarrow> element \<Rightarrow> exn + outcome list" where
  "get_elements_in_container svc c =
     (case service_class svc of
        EWSService_class \<Rightarrow> EWSService_get_elements_in_container svc c
      | GetServerTimeZones_class \<Rightarrow> GetServerTimeZones_get_elements_in_container svc c)"

text \<open>
  One round of the loop of \<^verbatim>\<open>_get_elements_in_response\<close>: the entries the message
  adds to \<^verbatim>\<open>elements\<close>, or the exception that leaves the loop. The \<^verbatim>\<open>try\<close> block
  extends by the elements of the container or appends \<^verbatim>\<open>(True, None)\<close>;
  \<^verbatim>\<open>ErrorTimeoutExpired\<close> and \<^verbatim>\<open>ErrorBatchProcessingStopped\<close> are raised again, an
  \<^verbatim>\<open>EWSWarning\<close> appends \<^verbatim>\<open>(False, '%s' % e.value)\<close>, anything else propagates.
\<close>

definition message_elements :: "env \<Rightarrow> service \<Rightarrow> element \<Rightarrow> exn + outcome list" where
  "message_elements env svc msg =
     (case get_element_container env msg (element_container_name svc) of
        Inr (PyElement c) \<Rightarrow> get_elements_in_container svc c
      | Inr PyTrue \<Rightarrow> Inr [Status True None]
      | Inl (EWSError cls v) \<Rightarrow>
          if cls = ''ErrorTimeoutExpired'' \<or> cls = ''ErrorBatchProcessingStopped''
          then Inl (EWSError cls v)
          else if cls = ''EWSWarning'' then Inr [Status False (Some (str v))]
          else Inl (EWSError cls v)
      | Inl e \<Rightarrow> Inl e)"

text \<open>\<^verbatim>\<open>EWSService._get_elements_in_response\<close>: the loop over the response messages,
  from the \<^verbatim>\<open>elements\<close> gathered so far.\<close>

fun get_elements_in_response_loop ::
  "env \<Rightarrow> service \<Rightarrow> element list \<Rightarrow> outcome list \<Rightarrow> exn + outcome list" where
  "get_elements_in_response_loop env svc [] elements = Inr elements"
| "get_elements_in_response_loop env svc (msg # response) elements =
     (case message_elements env svc msg of
        Inl e \<Rightarrow> Inl e
      | Inr new \<Rightarrow> get_elements_in_response_loop env svc response (elements @ new))"

definition get_elements_in_response ::
  "env \<Rightarrow> service \<Rightarrow> element list \<Rightarrow> exn + outcome list" where
  "get_elements_in_response env svc response =
     get_elements_in_response_loop env svc response []"

section \<open>The SOAP envelope and the transport\<close>

text \<open>The second \<^verbatim>\<open>try\<close> of \<^verbatim>\<open>_raise_soap_errors\<close> and its last \<^verbatim>\<open>raise\<close>: the error
  named by the fault code, or a \<^verbatim>\<open>SOAPError\<close> that prints the fault.\<close>

definition raise_fault ::
  "env \<Rightarrow> string option \<Rightarrow> string option \<Rightarrow> string option \<Rightarrow> string option \<Rightarrow> exn" where
  "raise_fault env faultcode faultstring faultactor detail =
     (case raise_by_name env faultcode faultstring of
        Some e \<Rightarrow> e
      | None \<Rightarrow>
          EWSError ''SOAPError''
            (Some (''SOAP error code: '' @ str faultcode @ '' string: '' @ str faultstring
                   @ '' actor: '' @ str faultactor @ '' detail: '' @ str detail)))"

text \<open>\<^verbatim>\<open>EWSService._raise_soap_errors\<close>: it never returns; the value is the exception
  it raises.\<close>

definition raise_soap_errors :: "env \<Rightarrow> service \<Rightarrow> element \<Rightarrow> exn" where
  "raise_soap_errors env svc fault =
     (let log_prefix = ''EWS '' @ ews_url svc @ '', service '' @ SERVICE_NAME svc;
          faultcode = get_xml_attr fault ''faultcode'';
          faultstring = get_xml_attr fault ''faultstring'';
          faultactor = get_xml_attr fault ''faultactor''
      in
        case find_elem fault ''detail'' of
          None \<Rightarrow> raise_fault env faultcode faultstring faultactor None
        | Some detail \<Rightarrow>
            (let code =
                   (if find_elem detail (qname (ENS env) ''ResponseCode'') \<noteq> None
                    then get_xml_attr detail (qname (ENS env) ''ResponseCode'') else None);
                 msg =
                   (if find_elem detail (qname (ENS env) ''Message'') \<noteq> None
                    then get_xml_attr detail (qname (ENS env) ''Message'') else None)
             in
               case raise_by_name env code msg of
                 Some e \<Rightarrow> e
               | None \<Rightarrow>
                   raise_fault env faultcode faultstring faultactor
                     (Some (log_prefix @ '': code: '' @ str code @ '' msg: '' @ str msg
                            @ '' ('' @ tostring env detail @ '')''))))"

text \<open>\<^verbatim>\<open>EWSService._get_soap_payload\<close>\<close>

definition get_soap_payload :: "env \<Rightarrow> service \<Rightarrow> element \<Rightarrow> exn + element list" where
  "get_soap_payload env svc soap_response =
     (let log_prefix = ''EWS '' @ ews_url svc @ '', service '' @ SERVICE_NAME svc in
        case find_elem soap_response (qname (SOAPNS env) ''Body'') of
          None \<Rightarrow> Inl (EWSError ''TransportError'' (Some ''No Body element in SOAP response''))
        | Some body \<Rightarrow>
            (case find_elem body (qname (MNS env) (SERVICE_NAME svc @ ''Response'')) of
               None \<Rightarrow>
                 (case find_elem body (qname (SOAPNS env) ''Fault'') of
                    None \<Rightarrow>
                      Inl (EWSError ''SOAPError''
                        (Some (''Unknown SOAP response: '' @ tostring env body)))
                  | Some fault \<Rightarrow> Inl (raise_soap_errors env svc fault))
             | Some response \<Rightarrow>
                 (case find_elem response (qname (MNS env) ''ResponseMessages'') of
                    None \<Rightarrow>
                      Inl (EWSError ''TransportError''
                        (Some (log_prefix @ '': No ResponseMessages element in response'')))
                  | Some response_messages \<Rightarrow>
                      Inr (findall response_messages
                             (qname (MNS env) (SERVICE_NAME svc @ ''ResponseMessage''))))))"

text \<open>
  The transport is a collaborator: \<^verbatim>\<open>wrap\<close>, the session pool, \<^verbatim>\<open>post_ratelimited\<close> and
  \<^verbatim>\<open>to_xml\<close> are not among the sources. A server answers a payload, given the payloads
  posted before it, by an exception of the transport, by a body that is not XML (with
  the parser's message) or by the parsed SOAP response. The state of the network is the
  list of payloads posted so far.
\<close>

datatype reply = Raises exn | NotXML string | XML element

type_synonym server = "element list \<Rightarrow> element \<Rightarrow> reply"

text \<open>\<^verbatim>\<open>EWSService._get_response_xml\<close>: posts the payload and parses the answer.\<close>

definition get_response_xml ::
  "env \<Rightarrow> service \<Rightarrow> server \<Rightarrow> element list \<Rightarrow> element
     \<Rightarrow> (exn + element list) \<times> element list" where
  "get_response_xml env svc srv posted payload =
     (case srv posted payload of
        Raises e \<Rightarrow> (Inl e, posted @ [payload])
      | NotXML m \<Rightarrow>
          (Inl (EWSError ''SOAPError'' (Some (''SOAP response is not XML: '' @ m))),
           posted @ [payload])
      | XML soap_response \<Rightarrow> (get_soap_payload env svc soap_response, posted @ [payload]))"

text \<open>\<^verbatim>\<open>EWSService._get_elements\<close>: both \<^verbatim>\<open>except\<close> clauses raise again what they
  caught (the second after logging it).\<close>

definition get_elements ::
  "env \<Rightarrow> service \<Rightarrow> server \<Rightarrow> element list \<Rightarrow> element
     \<Rightarrow> (exn + outcome list) \<times> element list" where
  "get_elements env svc srv posted payload =
     (case get_response_xml env svc srv posted payload of
        (Inl e, posted') \<Rightarrow> (Inl e, posted')
      | (Inr response, posted') \<Rightarrow> (get_elements_in_response env svc response, posted'))"

section \<open>GetServerTimeZones\<close>

definition GetServerTimeZones :: "env \<Rightarrow> string \<Rightarrow> int \<Rightarrow> service" where
  "GetServerTimeZones env url version =
     \<lparr>service_class = GetServerTimeZones_class, SERVICE_NAME = ''GetServerTimeZones'',
      element_container_name = Some (qname (MNS env) ''TimeZoneDefinitions''),
      element_name = Some (qname (TNS env) ''TimeZoneDefinition''),
      extra_element_names = [], ews_url = url, major_version = version\<rparr>"

text \<open>\<^verbatim>\<open>GetServerTimeZones._get_payload\<close>\<close>

definition GetServerTimeZones_get_payload :: "service \<Rightarrow> bool \<Rightarrow> element" where
  "GetServerTimeZones_get_payload svc returnfulltimezonedata =
     Element (''m:'' @ SERVICE_NAME svc)
       [(''ReturnFullTimeZoneData'', if returnfulltimezonedata then ''true'' else ''false'')]
       None []"

text \<open>\<^verbatim>\<open>GetServerTimeZones.call\<close>\<close>

definition GetServerTimeZones_call ::
  "env \<Rightarrow> service \<Rightarrow> server \<Rightarrow> element list \<Rightarrow> bool
     \<Rightarrow> (exn + outcome list) \<times> element list" where
  "GetServerTimeZones_call env svc srv posted returnfulltimezonedata =
     (if major_version svc < 14 then
        (Inl (NotImplementedError
           (SERVICE_NAME svc @ '' is only supported for Exchange 2010 servers and later'')),
         posted)
      else
        get_elements env svc srv posted
          (GetServerTimeZones_get_payload svc returnfulltimezonedata))"

section \<open>The pager\<close>

text \<open>
  \<^verbatim>\<open>int(s)\<close> on a string of ASCII characters: white space (the characters 9 to 13
  and the space) around an optional sign and decimal digits, which single underscores
  may separate. Anything else is a \<^verbatim>\<open>ValueError\<close>, and \<^verbatim>\<open>int(None)\<close> is a
  \<^verbatim>\<open>TypeError\<close>.
\<close>

definition is_space :: "char \<Rightarrow> bool" where
  "is_space c = (of_char c \<in> set [9, 10, 11, 12, 13, 32 :: nat])"

definition is_digit :: "char \<Rightarrow> bool" where
  "is_digit c = (48 \<le> (of_char c :: nat) \<and> (of_char c :: nat) \<le> 57)"

definition strip :: "string \<Rightarrow> string" where
  "strip s = rev (dropWhile is_space (rev (dropWhile is_space s)))"

fun digits :: "nat \<Rightarrow> string \<Rightarrow> nat option" where
  "digits acc [] = Some acc"
| "digits acc (c # cs) =
     (if is_digit c then digits (10 * acc + (of_char c - 48)) cs
      else if c = CHR ''_'' then
        (case cs of
           [] \<Rightarrow> None
         | d # _ \<Rightarrow> if is_digit d then digits acc cs else None)
      else None)"

definition parse_int :: "string \<Rightarrow> int option" where
  "parse_int s =
     (case strip s of
        [] \<Rightarrow> None
      | c # cs \<Rightarrow>
          (let negative = (c = CHR ''-'');
               body = (if c = CHR ''-'' \<or> c = CHR ''+'' then cs else c # cs)
           in
             case body of
               [] \<Rightarrow> None
             | d # _ \<Rightarrow>
                 if is_digit d then
                   map_option (\<lambda>n. if negative then - int n else int n) (digits 0 body)
                 else None))"

definition py_int :: "string option \<Rightarrow> exn + int" where
  "py_int v =
     (case v of
        None \<Rightarrow> Inl TypeError
      | Some s \<Rightarrow> (case parse_int s of None \<Rightarrow> Inl ValueError | Some n \<Rightarrow> Inr n))"

text \<open>\<^verbatim>\<open>s.lower()\<close>, as far as the comparison with \<^verbatim>\<open>'true'\<close> and \<^verbatim>\<open>'0'\<close> can tell: the
  ASCII capitals are lowered.\<close>

definition lower :: "string \<Rightarrow> string" where
  "lower s =
     map (\<lambda>c. if 65 \<le> (of_char c :: nat) \<and> (of_char c :: nat) \<le> 90
              then char_of (of_char c + 32 :: nat) else c) s"

text \<open>
  \<^verbatim>\<open>PagingEWSService._get_page\<close>: the page (the root folder, or \<^verbatim>\<open>None\<close> for an empty view)
  and the next offset. The root folder must be an element with the attribute
  \<^verbatim>\<open>IncludesLastItemInRange\<close>: \<^verbatim>\<open>True.get\<close> and \<^verbatim>\<open>None.lower\<close> are \<^verbatim>\<open>AttributeError\<close>s.
  The two \<^verbatim>\<open>assert\<close> statements raise \<^verbatim>\<open>AssertionError\<close>.
\<close>

definition get_page :: "env \<Rightarrow> element list \<Rightarrow> exn + element option \<times> int" where
  "get_page env response =
     (case response of
        [message] \<Rightarrow>
          (case get_element_container env message (Some (qname (MNS env) ''RootFolder'')) of
             Inl e \<Rightarrow> Inl e
           | Inr PyTrue \<Rightarrow> Inl AttributeError
           | Inr (PyElement rootfolder) \<Rightarrow>
               (case get rootfolder ''IncludesLastItemInRange'' of
                  None \<Rightarrow> Inl AttributeError
                | Some includes_last \<Rightarrow>
                    (let is_last_page =
                           (lower includes_last = ''true'' \<or> lower includes_last = ''0'');
                         offset = get rootfolder ''IndexedPagingOffset'';
                         offset = (if offset = None \<and> \<not> is_last_page then Some ''1''
                                   else offset)
                     in
                       case (if is_last_page then Inr 0 else py_int offset) of
                         Inl e \<Rightarrow> Inl e
                       | Inr next_offset \<Rightarrow>
                           (case py_int (get rootfolder ''TotalItemsInView'') of
                              Inl e \<Rightarrow> Inl e
                            | Inr total_items \<Rightarrow>
                                if total_items = 0 then
                                  (if next_offset = 0 then Inr (None, next_offset)
                                   else Inl AssertionError)
                                else Inr (Some rootfolder, next_offset)))))
      | _ \<Rightarrow> Inl AssertionError)"

text \<open>The elements \<^verbatim>\<open>_paged_call\<close> takes from a page: none when the page is not an
  element, else those of its container, which must be there. \<^verbatim>\<open>find(None)\<close> is a
  \<^verbatim>\<open>TypeError\<close>.\<close>

definition page_elements :: "env \<Rightarrow> service \<Rightarrow> element option \<Rightarrow> exn + outcome list" where
  "page_elements env svc page =
     (case page of
        None \<Rightarrow> Inr []
      | Some p \<Rightarrow>
          (case element_container_name svc of
             None \<Rightarrow> Inl TypeError
           | Some n \<Rightarrow>
               (case find_elem p n of
                  None \<Rightarrow>
                    Inl (EWSError ''TransportError''
                      (Some (''No '' @ n @ '' elements in ResponseMessage (''
                             @ tostring env p @ '')'')))
                | Some c \<Rightarrow> get_elements_in_container svc c)))"

text \<open>
  The \<^verbatim>\<open>while True\<close> loop of \<^verbatim>\<open>PagingEWSService._paged_call\<close>, from the current offset,
  the elements gathered and the payloads posted so far. \<open>get_payload\<close> is the payload
  of the service for an offset (\<^verbatim>\<open>self._get_payload(**kwargs)\<close>, which may fail). The
  loop ends when a page gives the next offset 0 or something raises; a server that never
  sends such a page keeps it running, and the value is \<open>None\<close>.
\<close>

partial_function (option) paged_call_loop ::
  "env \<Rightarrow> service \<Rightarrow> server \<Rightarrow> (int \<Rightarrow> exn + element) \<Rightarrow> int \<Rightarrow> outcome list
     \<Rightarrow> element list \<Rightarrow> ((exn + outcome list) \<times> element list) option" where
  "paged_call_loop env svc srv get_payload offset elements posted =
     (case get_payload offset of
        Inl e \<Rightarrow> Some (Inl e, posted)
      | Inr payload \<Rightarrow>
          (case get_response_xml env svc srv posted payload of
             (Inl e, posted') \<Rightarrow> Some (Inl e, posted')
           | (Inr response, posted') \<Rightarrow>
               (case get_page env response of
                  Inl e \<Rightarrow> Some (Inl e, posted')
                | Inr (page, next_offset) \<Rightarrow>
                    (case page_elements env svc page of
                       Inl e \<Rightarrow> Some (Inl e, posted')
                     | Inr new \<Rightarrow>
                         if next_offset = 0 then Some (Inr (elements @ new), posted')
                         else paged_call_loop env svc srv get_payload next_offset
                                (elements @ new) posted'))))"

declare paged_call_loop.simps [code]

text \<open>\<^verbatim>\<open>PagingEWSService._paged_call\<close>\<close>

definition paged_call ::
  "env \<Rightarrow> service \<Rightarrow> server \<Rightarrow> (int \<Rightarrow> exn + element) \<Rightarrow> element list
     \<Rightarrow> ((exn + outcome list) \<times> element list) option" where
  "paged_call env svc srv get_payload posted =
     paged_call_loop env svc srv get_payload 0 [] posted"

section \<open>The chunked dispatcher\<close>







section \<open>The concrete services\<close>



definition DeleteItem_CHUNKSIZE :: nat where
  "DeleteItem_CHUNKSIZE = 25"

definition DeleteItem :: "string \<Rightarrow> int \<Rightarrow> service" where
  "DeleteItem url version =
     \<lparr>service_class = EWSService_class, SERVICE_NAME = ''DeleteItem'',
      element_container_name = None, element_name = None,
      extra_element_names = [], ews_url = url, major_version = version\<rparr>"

definition FindItem :: "env \<Rightarrow> string \<Rightarrow> string \<Rightarrow> int \<Rightarrow> service" where
  "FindItem env item_type url version =
     \<lparr>service_class = EWSService_class, SERVICE_NAME = ''FindItem'',
      element_container_name = Some (qname (TNS env) ''Items''),
      element_name = Some (qname (TNS env) item_type),
      extra_element_names = [], ews_url = url, major_version = version\<rparr>"

definition FindFolder :: "env \<Rightarrow> string \<Rightarrow> int \<Rightarrow> service" where
  "FindFolder env url version =
     \<lparr>service_class = EWSService_class, SERVICE_NAME = ''FindFolder'',
      element_container_name = Some (qname (TNS env) ''Folders''),
      element_name = Some (qname (TNS env) ''Folder''),
      extra_element_names =
        [qname (TNS env) ''CalendarFolder'', qname (TNS env) ''ContactsFolder'',
         qname (TNS env) ''SearchFolder'', qname (TNS env) ''TasksFolder''],
      ews_url = url, major_version = version\<rparr>"

definition GetFolder :: "env \<Rightarrow> string \<Rightarrow> int \<Rightarrow> service" where
  "GetFolder env url version =
     \<lparr>service_class = EWSService_class, SERVICE_NAME = ''GetFolder'',
      element_container_name = Some (qname (MNS env) ''Folders''),
      element_name = Some (qname (TNS env) ''Folder''),
      extra_element_names =
        [qname (TNS env) ''CalendarFolder'', qname (TNS env) ''ContactsFolder'',
         qname (TNS env) ''SearchFolder'', qname (TNS env) ''TasksFolder''],
      ews_url = url, major_version = version\<rparr>"

definition ResolveNames :: "env \<Rightarrow> string \<Rightarrow> int \<Rightarrow> service" where
  "ResolveNames env url version =
     \<lparr>service_class = EWSService_class, SERVICE_NAME = ''ResolveNames'',
      element_container_name = Some (qname (MNS env) ''ResolutionSet''),
      element_name = Some (qname (TNS env) ''Resolution''),
      extra_element_names = [], ews_url = url, major_version = version\<rparr>"

section \<open>An environment and responses to run the services on\<close>

text \<open>The names that \<^verbatim>\<open>services.py\<close> imports from module \<^verbatim>\<open>errors\<close>, each of which it
  raises or catches as an exception class.\<close>

definition imported_errors :: "string list" where
  "imported_errors =
     [''EWSWarning'', ''TransportError'', ''SOAPError'', ''ErrorTimeoutExpired'',
      ''ErrorBatchProcessingStopped'', ''ErrorQuotaExceeded'', ''ErrorCannotDeleteObject'',
      ''ErrorCreateItemAccessDenied'', ''ErrorFolderNotFound'', ''ErrorNonExistentMailbox'',
      ''ErrorMailboxStoreUnavailable'', ''ErrorImpersonateUserDenied'',
      ''ErrorInternalServerError'', ''ErrorInternalServerTransientError'',
      ''ErrorNoRespondingCASInDestinationSite'', ''ErrorImpersonationFailed'',
      ''ErrorMailboxMoveInProgress'', ''ErrorAccessDenied'', ''ErrorConnectionFailed'',
      ''RateLimitError'', ''ErrorServerBusy'', ''ErrorTooManyObjectsOpened'',
      ''ErrorInvalidLicense'']"

text \<open>An environment: the namespaces of Exchange Web Services, a module \<^verbatim>\<open>errors\<close> that
  binds the imported classes and its own \<^verbatim>\<open>__name__\<close>, and a serialisation that prints
  the tag only.\<close>

definition example_env :: env where
  "example_env =
     \<lparr>SOAPNS = ''http://schemas.xmlsoap.org/soap/envelope/'',
      MNS = ''http://schemas.microsoft.com/exchange/services/2006/messages'',
      TNS = ''http://schemas.microsoft.com/exchange/services/2006/types'',
      ENS = ''http://schemas.microsoft.com/exchange/services/2006/errors'',
      errors = (\<lambda>name. if name \<in> set imported_errors then Some ErrorClass
                        else if name = ''__name__'' then Some NotCallable else None),
      tostring = tag\<rparr>"

text \<open>A response message of a service: its class, its code, its message text if any,
  and further children.\<close>

definition response_message ::
  "env \<Rightarrow> string \<Rightarrow> string \<Rightarrow> string \<Rightarrow> string option \<Rightarrow> element list \<Rightarrow> element" where
  "response_message env name response_class code msg_text kids =
     Element (qname (MNS env) (name @ ''ResponseMessage'')) [(''ResponseClass'', response_class)]
       None
       ([Element (qname (MNS env) ''ResponseCode'') [] (Some code) []]
        @ (case msg_text of
             None \<Rightarrow> []
           | Some t \<Rightarrow> [Element (qname (MNS env) ''MessageText'') [] (Some t) []])
        @ kids)"

text \<open>The SOAP envelope around the response messages of a service.\<close>

definition soap_response :: "env \<Rightarrow> string \<Rightarrow> element list \<Rightarrow> element" where
  "soap_response env name messages =
     Element (qname (SOAPNS env) ''Envelope'') [] None
       [Element (qname (SOAPNS env) ''Body'') [] None
          [Element (qname (MNS env) (name @ ''Response'')) [] None
             [Element (qname (MNS env) ''ResponseMessages'') [] None messages]]]"

text \<open>Two responses: one \<^verbatim>\<open>ResolveNames\<close> message whose resolution set holds two
  resolutions, and two \<^verbatim>\<open>DeleteItem\<close> messages, the second a warning that the batch
  stopped.\<close>

definition resolve_two :: element where
  "resolve_two =
     response_message example_env ''ResolveNames'' ''Success'' ''NoError'' None
       [Element (qname (MNS example_env) ''ResolutionSet'') [] None
          [Element (qname (TNS example_env) ''Resolution'') [] (Some ''a'') [],
           Element (qname (TNS example_env) ''Resolution'') [] (Some ''b'') []]]"

definition delete_two :: "element list" where
  "delete_two =
     [response_message example_env ''DeleteItem'' ''Success'' ''NoError'' None [],
      response_message example_env ''DeleteItem'' ''Warning'' ''ErrorBatchProcessingStopped''
        (Some ''stopped'') []]"

text \<open>A warning message of \<^verbatim>\<open>DeleteItem\<close>, and a \<^verbatim>\<open>GetItem\<close> message of a given
  response class with the code \<^verbatim>\<open>NoError\<close> and a container of one item.\<close>

definition warning_message :: "string \<Rightarrow> string option \<Rightarrow> element" where
  "warning_message code msg_text =
     response_message example_env ''DeleteItem'' ''Warning'' code msg_text []"

definition items_message :: "string \<Rightarrow> element" where
  "items_message response_class =
     response_message example_env ''GetItem'' response_class ''NoError'' None
       [Element (qname (MNS example_env) ''Items'') [] None
          [Element (qname (TNS example_env) ''Message'') [] None []]]"

text \<open>A SOAP fault whose detail names the response code \<^verbatim>\<open>ErrorAccessDenied\<close>.\<close>

definition access_denied_fault :: element where
  "access_denied_fault =
     Element (qname (SOAPNS example_env) ''Fault'') [] None
       [Element ''faultcode'' [] (Some ''a:ErrorAccessDenied'') [],
        Element ''faultstring'' [] (Some ''Access is denied.'') [],
        Element ''detail'' [] None
          [Element (qname (ENS example_env) ''ResponseCode'') [] (Some ''ErrorAccessDenied'') [],
           Element (qname (ENS example_env) ''Message'') [] (Some ''Access is denied.'') []]]"

text \<open>A container of folders of several types, in document order.\<close>

definition mixed_folders :: element where
  "mixed_folders =
     Element (qname (MNS example_env) ''Folders'') [] None
       [Element (qname (TNS example_env) ''CalendarFolder'') [] (Some ''calendar'') [],
        Element (qname (TNS example_env) ''Folder'') [] (Some ''inbox'') [],
        Element (qname (TNS example_env) ''SearchFolder'') [] (Some ''search'') [],
        Element (qname (TNS example_env) ''Folder'') [] (Some ''drafts'') []]"

text \<open>
  Paged responses of \<^verbatim>\<open>FindItem\<close>: a root folder with paging attributes and items, the
  SOAP response around it, the payload for an offset (the retrievals below ask for the
  offsets 0 and 1 only), and the requests for the offsets 0 and 1.
\<close>

definition root_folder :: "(string \<times> string) list \<Rightarrow> element list \<Rightarrow> element" where
  "root_folder attrs items =
     Element (qname (MNS example_env) ''RootFolder'') attrs None
       [Element (qname (TNS example_env) ''Items'') [] None items]"

definition page_response :: "(string \<times> string) list \<Rightarrow> element list \<Rightarrow> element" where
  "page_response attrs items =
     soap_response example_env ''FindItem''
       [response_message example_env ''FindItem'' ''Success'' ''NoError'' None
          [root_folder attrs items]]"

definition page_request :: "int \<Rightarrow> exn + element" where
  "page_request offset =
     Inr (Element ''m:FindItem'' [(''Traversal'', ''Shallow'')] None
       [Element ''m:IndexedPageItemView''
          [(''Offset'', if offset = 0 then ''0'' else if offset = 1 then ''1'' else ''5''),
           (''BasePoint'', ''Beginning'')] None []])"

definition item :: "string \<Rightarrow> element" where
  "item name = Element (qname (TNS example_env) ''Message'') [] (Some name) []"

definition find_item :: service where
  "find_item = FindItem example_env ''Message'' ''https://example.com/EWS'' 15"

definition first_request :: element where
  "first_request =
     Element ''m:FindItem'' [(''Traversal'', ''Shallow'')] None
       [Element ''m:IndexedPageItemView''
          [(''Offset'', ''0''), (''BasePoint'', ''Beginning'')] None []]"

definition empty_last_attrs :: "(string \<times> string) list" where
  "empty_last_attrs = [(''IncludesLastItemInRange'', ''true''), (''TotalItemsInView'', ''0'')]"

definition second_request :: element where
  "second_request =
     Element ''m:FindItem'' [(''Traversal'', ''Shallow'')] None
       [Element ''m:IndexedPageItemView''
          [(''Offset'', ''1''), (''BasePoint'', ''Beginning'')] None []]"

definition no_offset_attrs :: "(string \<times> string) list" where
  "no_offset_attrs = [(''IncludesLastItemInRange'', ''false''), (''TotalItemsInView'', ''2'')]"

text \<open>
  Four servers. The first always answers with an empty view that is not the last page
  and has the offset 5; the second with an empty view that is the last page; the third
  with a first page of two items in view without an offset, and then with the last
  page; the fourth with an empty view that is not the last page and has no offset.
\<close>

definition empty_view_server :: server where
  "empty_view_server posted payload =
     XML (page_response [(''IncludesLastItemInRange'', ''false''), (''IndexedPagingOffset'', ''5''),
                         (''TotalItemsInView'', ''0'')] [])"

definition empty_last_server :: server where
  "empty_last_server posted payload =
     XML (page_response [(''IncludesLastItemInRange'', ''true''), (''TotalItemsInView'', ''0'')] [])"

definition no_offset_server :: server where
  "no_offset_server posted payload =
     (if posted = [] then
        XML (page_response [(''IncludesLastItemInRange'', ''false''), (''TotalItemsInView'', ''2'')]
               [item ''first''])
      else
        XML (page_response [(''IncludesLastItemInRange'', ''true''), (''IndexedPagingOffset'', ''2''),
                            (''TotalItemsInView'', ''2'')]
               [item ''second'']))"

definition no_offset_empty_server :: server where
  "no_offset_empty_server posted payload =
     XML (page_response [(''IncludesLastItemInRange'', ''false''), (''TotalItemsInView'', ''0'')] [])"







section \<open>Properties of the dispatcher loop\<close>

text \<open>The loop returns exactly when every message gives its entries, and then returns
  what it started from followed by the entries of each message in turn.\<close>

lemma get_elements_in_response_loop_Inr_iff:
  "get_elements_in_response_loop env svc response acc = Inr out \<longleftrightarrow>
     (\<exists>groups. map (message_elements env svc) response = map Inr groups \<and> out = acc @ concat groups)"
proof (induction response arbitrary: acc)
  case Nil
  then show ?case by auto
next
  case (Cons m ms)
  show ?case
  proof (cases "message_elements env svc m")
    case (Inl e)
    then show ?thesis by (auto simp: map_eq_Cons_conv)
  next
    case (Inr new)
    show ?thesis
    proof
      assume "get_elements_in_response_loop env svc (m # ms) acc = Inr out"
      with Inr Cons.IH [of "acc @ new"] obtain groups where
        g: "map (message_elements env svc) ms = map Inr groups" "out = (acc @ new) @ concat groups"
        by auto
      from g Inr have "map (message_elements env svc) (m # ms) = map Inr (new # groups)
          \<and> out = acc @ concat (new # groups)"
        by simp
      then show "\<exists>groups. map (message_elements env svc) (m # ms) = map Inr groups
          \<and> out = acc @ concat groups"
        by blast
    next
      assume "\<exists>groups. map (message_elements env svc) (m # ms) = map Inr groups
          \<and> out = acc @ concat groups"
      then obtain groups where
        g: "map (message_elements env svc) (m # ms) = map Inr groups" "out = acc @ concat groups"
        by blast
      from g(1) Inr obtain rest where r: "groups = new # rest"
        "map (message_elements env svc) ms = map Inr rest"
        by (cases groups) auto
      with g(2) have "out = (acc @ new) @ concat rest" by simp
      with r(2) Cons.IH [of "acc @ new"] Inr
      show "get_elements_in_response_loop env svc (m # ms) acc = Inr out"
        by auto
    qed
  qed
qed

text \<open>When it returns, the classification of a response code returns \<^verbatim>\<open>True\<close>; so a
  service without a container name gets one entry from each message.\<close>

lemma raise_errors_Inr: "raise_errors env code t x = Inr c \<Longrightarrow> c = PyTrue"
  by (auto simp: raise_errors_def split: if_splits option.splits)

lemma raise_warnings_Inr: "raise_warnings env code t x = Inr c \<Longrightarrow> c = PyTrue"
  by (auto simp: raise_warnings_def split: sum.splits exn.splits if_splits dest: raise_errors_Inr)

lemma get_element_container_no_name:
  "falsy name \<Longrightarrow> get_element_container env msg name = Inr c \<Longrightarrow> c = PyTrue"
  by (auto simp: get_element_container_def falsy_def Let_def split: if_splits option.splits
      dest: raise_errors_Inr raise_warnings_Inr)

lemma message_elements_single:
  "falsy (element_container_name svc) \<Longrightarrow> message_elements env svc msg = Inr new \<Longrightarrow> length new = 1"
  by (auto simp: message_elements_def split: sum.splits container.splits exn.splits if_splits
      dest: get_element_container_no_name)

text \<open>
  C1, as the code has it. A response of one message yields two outcomes when the
  container of the message holds two elements: the number of outcomes is not the number
  of response messages.
\<close>

theorem get_elements_in_response_length_counterexample:
  "get_elements_in_response example_env
     (ResolveNames example_env ''https://example.com/EWS'' 15) [resolve_two]
   = Inr [Found (Element (qname (TNS example_env) ''Resolution'') [] (Some ''a'') []),
          Found (Element (qname (TNS example_env) ''Resolution'') [] (Some ''b'') [])]
   \<and> length [Found (Element (qname (TNS example_env) ''Resolution'') [] (Some ''a'') []),
          Found (Element (qname (TNS example_env) ''Resolution'') [] (Some ''b'') [])]
       \<noteq> length [resolve_two]"
  by code_simp

text \<open>
  C1, amended. When \<^verbatim>\<open>_get_elements_in_response\<close> returns on a response of N messages,
  the list it returns is the concatenation, in the order of the messages, of N groups,
  the i-th group being the entries of the i-th message (the elements of its container,
  or one status tuple). When the service declares no container name every group has one
  entry, and the list has exactly N entries.
\<close>

theorem get_elements_in_response_groups:
  assumes "get_elements_in_response env svc response = Inr out"
  shows "(\<exists>groups. length groups = length response \<and> out = concat groups
            \<and> (\<forall>i < length response. message_elements env svc (response ! i) = Inr (groups ! i)))
         \<and> (falsy (element_container_name svc) \<longrightarrow> length out = length response)"
proof -
  from assms obtain groups where
    g: "map (message_elements env svc) response = map Inr groups" "out = concat groups"
    by (auto simp: get_elements_in_response_def get_elements_in_response_loop_Inr_iff)
  from g(1) have len: "length groups = length response"
    by (metis length_map)
  have nth: "message_elements env svc (response ! i) = Inr (groups ! i)" if "i < length response" for i
    using g(1) that len by (metis nth_map)
  have single: "length out = length response" if f: "falsy (element_container_name svc)"
  proof -
    have "\<forall>grp \<in> set groups. length grp = 1"
    proof
      fix grp assume "grp \<in> set groups"
      then obtain i where i: "i < length groups" "groups ! i = grp"
        by (auto simp: in_set_conv_nth)
      with nth len have "message_elements env svc (response ! i) = Inr grp" by simp
      with f show "length grp = 1" by (rule message_elements_single)
    qed
    then have "map length groups = replicate (length groups) 1"
      by (induction groups) auto
    then have "length (concat groups) = length groups"
      by (simp add: length_concat sum_list_replicate)
    with g(2) len show ?thesis by simp
  qed
  from len g(2) nth single show ?thesis by blast
qed

theorem get_elements_in_response_groups_witness:
  "get_elements_in_response example_env (DeleteItem ''https://example.com/EWS'' 15) delete_two
     = Inr [Status True None, Status False (Some ''stopped'')]
   \<and> falsy (element_container_name (DeleteItem ''https://example.com/EWS'' 15))
   \<and> length [Status True None, Status False (Some ''stopped'')] = length delete_two"
proof -
  have h: "get_elements_in_response example_env (DeleteItem ''https://example.com/EWS'' 15)
             delete_two
           = Inr [Status True None, Status False (Some ''stopped'')]"
    by code_simp
  have f: "falsy (element_container_name (DeleteItem ''https://example.com/EWS'' 15))"
    by (simp add: DeleteItem_def falsy_def)
  from get_elements_in_response_groups [OF h] f h show ?thesis by simp
qed

section \<open>Version gating\<close>

text \<open>
  C8. \<^verbatim>\<open>GetServerTimeZones.call\<close> against a server whose major version is below 14
  raises \<^verbatim>\<open>NotImplementedError\<close> and posts nothing, whatever the server and the
  arguments; from version 14 on, the call posts its payload.
\<close>

theorem GetServerTimeZones_call_version_gate:
  "(major_version svc < 14 \<longrightarrow>
      GetServerTimeZones_call env svc srv posted returnfulltimezonedata
      = (Inl (NotImplementedError
           (SERVICE_NAME svc @ '' is only supported for Exchange 2010 servers and later'')),
         posted))
   \<and> (14 \<le> major_version svc \<longrightarrow>
      snd (GetServerTimeZones_call env svc srv posted returnfulltimezonedata)
      = posted @ [GetServerTimeZones_get_payload svc returnfulltimezonedata])"
  by (auto simp: GetServerTimeZones_call_def get_elements_def get_response_xml_def
      split: reply.splits prod.splits sum.splits)

theorem GetServerTimeZones_call_version_gate_witness:
  "major_version (GetServerTimeZones example_env ''https://example.com/EWS'' 12) < 14
   \<and> GetServerTimeZones_call example_env
        (GetServerTimeZones example_env ''https://example.com/EWS'' 12)
        (\<lambda>posted payload. XML (soap_response example_env ''GetServerTimeZones'' [])) [] True
      = (Inl (NotImplementedError
           ''GetServerTimeZones is only supported for Exchange 2010 servers and later''), [])
   \<and> 14 \<le> major_version (GetServerTimeZones example_env ''https://example.com/EWS'' 14)
   \<and> snd (GetServerTimeZones_call example_env
        (GetServerTimeZones example_env ''https://example.com/EWS'' 14)
        (\<lambda>posted payload. XML (soap_response example_env ''GetServerTimeZones'' [])) [] True)
      = [Element ''m:GetServerTimeZones'' [(''ReturnFullTimeZoneData'', ''true'')] None []]"
  using GetServerTimeZones_call_version_gate
    [of "GetServerTimeZones example_env ''https://example.com/EWS'' 12" example_env
        "\<lambda>posted payload. XML (soap_response example_env ''GetServerTimeZones'' [])" "[]" True]
    GetServerTimeZones_call_version_gate
    [of "GetServerTimeZones example_env ''https://example.com/EWS'' 14" example_env
        "\<lambda>posted payload. XML (soap_response example_env ''GetServerTimeZones'' [])" "[]" True]
  by (simp add: GetServerTimeZones_def GetServerTimeZones_get_payload_def)

section \<open>Response codes\<close>

text \<open>Every case of \<^verbatim>\<open>_raise_errors\<close>: success for \<^verbatim>\<open>NoError\<close>, a transport error for
  an empty or absent code, the class bound to the code in \<^verbatim>\<open>errors\<close>, a \<^verbatim>\<open>TypeError\<close>
  when the code names something that is not callable, and a transport error with the
  code, the text and the XML when the code is not bound.\<close>

lemma raise_errors_classification:
  "raise_errors env code t x =
     (if code = Some ''NoError'' then Inr PyTrue
      else if code = None \<or> code = Some [] then
        Inl (EWSError ''TransportError''
          (Some (''Empty ResponseCode in ResponseMessage (MessageText: '' @ str t
                 @ '', MessageXml: '' @ str x @ '')'')))
      else case errors env (str code) of
             Some ErrorClass \<Rightarrow> Inl (EWSError (str code) t)
           | Some NotCallable \<Rightarrow> Inl TypeError
           | None \<Rightarrow> Inl (EWSError ''TransportError''
               (Some (''Unknown ResponseCode in ResponseMessage: '' @ str code
                      @ '' (MessageText: '' @ str t @ '', MessageXml: ''
                      @ str x @ '')''))))"
  by (auto simp: raise_errors_def raise_by_name_def falsy_def str_def
      split: option.splits binding.splits)

lemma raise_errors_Inl:
  "code \<noteq> Some ''NoError'' \<Longrightarrow> \<exists>e. raise_errors env code t x = Inl e"
  by (auto simp: raise_errors_def split: option.splits)

text \<open>
  C5, at an input where the code departs from it. The response code \<^verbatim>\<open>__name__\<close> is
  neither \<^verbatim>\<open>NoError\<close> nor empty, and it is no error code; yet the module \<^verbatim>\<open>errors\<close>
  binds it, to a string. The lookup succeeds, the call of the string fails, and
  \<^verbatim>\<open>_raise_errors\<close> raises \<^verbatim>\<open>TypeError\<close>, which \<^verbatim>\<open>except KeyError\<close> does not catch:
  neither a typed error for the code nor the transport error for an unknown code. The
  dispatcher passes the \<^verbatim>\<open>TypeError\<close> on.
\<close>

theorem raise_errors_module_attribute:
  "raise_errors example_env (Some ''__name__'') (Some ''text'') (Some ''<xml/>'') = Inl TypeError
   \<and> get_elements_in_response example_env (DeleteItem ''https://example.com/EWS'' 15)
       [response_message example_env ''DeleteItem'' ''Error'' ''__name__'' (Some ''text'') []]
     = Inl TypeError"
  by code_simp

text \<open>
  C9, as the code has it. Two messages with the same children, the response code
  \<^verbatim>\<open>NoError\<close> among them, and neither of class \<^verbatim>\<open>Warning\<close>: for the class \<^verbatim>\<open>Success\<close>
  the outcome is the container, for the class \<^verbatim>\<open>Error\<close> it is \<^verbatim>\<open>True\<close>. The response class
  decides.
\<close>

theorem response_class_decides_counterexample:
  "get_xml_attr (items_message ''Success'') (qname (MNS example_env) ''ResponseCode'')
     = get_xml_attr (items_message ''Error'') (qname (MNS example_env) ''ResponseCode'')
   \<and> get_element_container example_env (items_message ''Success'')
        (Some (qname (MNS example_env) ''Items''))
     = Inr (PyElement (Element (qname (MNS example_env) ''Items'') [] None
          [Element (qname (TNS example_env) ''Message'') [] None []]))
   \<and> get_element_container example_env (items_message ''Error'')
        (Some (qname (MNS example_env) ''Items''))
     = Inr PyTrue"
  by code_simp

text \<open>
  C9, amended. For a message whose class is not \<^verbatim>\<open>Warning\<close>: unless the class is
  \<^verbatim>\<open>Success\<close>, the code \<^verbatim>\<open>NoError\<close> and a container name is given, the outcome of
  \<^verbatim>\<open>_get_element_container\<close> is that of \<^verbatim>\<open>_raise_errors\<close> on the code, the text and the
  XML of the message. So a class other than \<^verbatim>\<open>Success\<close> with the code \<^verbatim>\<open>NoError\<close> yields
  \<^verbatim>\<open>True\<close>, never the container; any code other than \<^verbatim>\<open>NoError\<close> raises. With the class
  \<^verbatim>\<open>Success\<close>, the code \<^verbatim>\<open>NoError\<close> and a container name, the outcome is the container,
  or a transport error when the message has none.
\<close>

theorem get_element_container_not_warning:
  assumes "get message ''ResponseClass'' \<noteq> Some ''Warning''"
  shows
    "(get message ''ResponseClass'' \<noteq> Some ''Success''
        \<or> get_xml_attr message (qname (MNS env) ''ResponseCode'') \<noteq> Some ''NoError''
        \<or> falsy name \<longrightarrow>
      get_element_container env message name
      = raise_errors env (get_xml_attr message (qname (MNS env) ''ResponseCode''))
          (get_xml_attr message (qname (MNS env) ''MessageText''))
          (get_xml_attr message (qname (MNS env) ''MessageXml'')))
     \<and> (get message ''ResponseClass'' \<noteq> Some ''Success''
        \<and> get_xml_attr message (qname (MNS env) ''ResponseCode'') = Some ''NoError'' \<longrightarrow>
      get_element_container env message name = Inr PyTrue)
     \<and> (get_xml_attr message (qname (MNS env) ''ResponseCode'') \<noteq> Some ''NoError'' \<longrightarrow>
      (\<exists>e. get_element_container env message name = Inl e))
     \<and> (get message ''ResponseClass'' = Some ''Success''
        \<and> get_xml_attr message (qname (MNS env) ''ResponseCode'') = Some ''NoError''
        \<and> name = Some n \<and> n \<noteq> [] \<longrightarrow>
      get_element_container env message name
      = (case find_elem message n of
           None \<Rightarrow> Inl (EWSError ''TransportError''
                    (Some (''No '' @ n @ '' elements in ResponseMessage (''
                           @ tostring env message @ '')'')))
         | Some c \<Rightarrow> Inr (PyElement c)))"
proof -
  let ?cls = "get message ''ResponseClass''"
  let ?code = "get_xml_attr message (qname (MNS env) ''ResponseCode'')"
  let ?re = "raise_errors env ?code (get_xml_attr message (qname (MNS env) ''MessageText''))
          (get_xml_attr message (qname (MNS env) ''MessageXml''))"
  have noerr: "raise_errors env (Some ''NoError'') t x = Inr PyTrue" for t x
    by (simp add: raise_errors_def)
  have other: "get_element_container env message name = ?re"
    if "?cls \<noteq> Some ''Success'' \<or> ?code \<noteq> Some ''NoError''"
    using that assms by (auto simp: get_element_container_def Let_def)
  have a: "get_element_container env message name = ?re"
    if "?cls \<noteq> Some ''Success'' \<or> ?code \<noteq> Some ''NoError'' \<or> falsy name"
  proof (cases "?cls = Some ''Success'' \<and> ?code = Some ''NoError''")
    case True
    with that have "falsy name" by simp
    with True show ?thesis
      by (auto simp: get_element_container_def Let_def falsy_def noerr)
  next
    case False
    then show ?thesis using other by blast
  qed
  have b: "get_element_container env message name = Inr PyTrue"
    if "?cls \<noteq> Some ''Success''" "?code = Some ''NoError''"
    using that other noerr by simp
  have c: "\<exists>e. get_element_container env message name = Inl e"
    if "?code \<noteq> Some ''NoError''"
    using that other raise_errors_Inl [OF that] by simp
  have d: "get_element_container env message name
      = (case find_elem message n of
           None \<Rightarrow> Inl (EWSError ''TransportError''
                    (Some (''No '' @ n @ '' elements in ResponseMessage (''
                           @ tostring env message @ '')'')))
         | Some c \<Rightarrow> Inr (PyElement c))"
    if "?cls = Some ''Success''" "?code = Some ''NoError''" "name = Some n" "n \<noteq> []"
    using that by (simp add: get_element_container_def Let_def)
  from a b c d show ?thesis by blast
qed

theorem get_element_container_not_warning_witness:
  "get (items_message ''Error'') ''ResponseClass'' \<noteq> Some ''Warning''
   \<and> get (items_message ''Error'') ''ResponseClass'' \<noteq> Some ''Success''
   \<and> get_xml_attr (items_message ''Error'') (qname (MNS example_env) ''ResponseCode'') = Some ''NoError''
   \<and> get_element_container example_env (items_message ''Error'')
        (Some (qname (MNS example_env) ''Items'')) = Inr PyTrue"
proof -
  have 1: "get (items_message ''Error'') ''ResponseClass'' \<noteq> Some ''Warning''" by code_simp
  have 2: "get (items_message ''Error'') ''ResponseClass'' \<noteq> Some ''Success''" by code_simp
  have 3: "get_xml_attr (items_message ''Error'') (qname (MNS example_env) ''ResponseCode'') = Some ''NoError''"
    by code_simp
  from get_element_container_not_warning [OF 1, of example_env "Some (qname (MNS example_env) ''Items'')"] 1 2 3
  show ?thesis by blast
qed

text \<open>
  C3, as the code has it. A warning whose code is \<^verbatim>\<open>ErrorAccessDenied\<close> leaves the
  dispatcher as the exception \<^verbatim>\<open>ErrorAccessDenied\<close>.
\<close>

theorem warning_access_denied_counterexample:
  "get (warning_message ''ErrorAccessDenied'' (Some ''Access is denied.'')) ''ResponseClass''
     = Some ''Warning''
   \<and> get_elements_in_response example_env (DeleteItem ''https://example.com/EWS'' 15)
       [warning_message ''ErrorAccessDenied'' (Some ''Access is denied.'')]
     = Inl (EWSError ''ErrorAccessDenied'' (Some ''Access is denied.''))"
  by code_simp

text \<open>
  C3, amended. For a message of class \<^verbatim>\<open>Warning\<close>, in a module \<^verbatim>\<open>errors\<close> that binds
  \<^verbatim>\<open>ErrorBatchProcessingStopped\<close> to a class: with the code \<^verbatim>\<open>NoError\<close> the dispatcher
  appends \<^verbatim>\<open>(True, None)\<close> and goes on; with the code \<^verbatim>\<open>ErrorBatchProcessingStopped\<close> it
  appends \<^verbatim>\<open>(False, '%s' % text)\<close> for the message text and goes on, raising nothing;
  with any other code, the name \<^verbatim>\<open>EWSWarning\<close> apart, what \<^verbatim>\<open>_raise_errors\<close> raises for
  the code leaves the dispatcher.
\<close>

theorem warning_message_outcome:
  assumes w: "get msg ''ResponseClass'' = Some ''Warning''"
    and b: "errors env ''ErrorBatchProcessingStopped'' = Some ErrorClass"
  shows
    "(get_xml_attr msg (qname (MNS env) ''ResponseCode'') = Some ''NoError'' \<longrightarrow>
        get_elements_in_response_loop env svc (msg # response) elements
        = get_elements_in_response_loop env svc response (elements @ [Status True None]))
     \<and> (get_xml_attr msg (qname (MNS env) ''ResponseCode'') = Some ''ErrorBatchProcessingStopped'' \<longrightarrow>
        get_elements_in_response_loop env svc (msg # response) elements
        = get_elements_in_response_loop env svc response
            (elements @ [Status False (Some (str (get_xml_attr msg (qname (MNS env) ''MessageText''))))]))
     \<and> (get_xml_attr msg (qname (MNS env) ''ResponseCode'') \<noteq> Some ''NoError''
        \<and> get_xml_attr msg (qname (MNS env) ''ResponseCode'') \<noteq> Some ''ErrorBatchProcessingStopped''
        \<and> get_xml_attr msg (qname (MNS env) ''ResponseCode'') \<noteq> Some ''EWSWarning'' \<longrightarrow>
        (\<exists>e. raise_errors env (get_xml_attr msg (qname (MNS env) ''ResponseCode''))
               (get_xml_attr msg (qname (MNS env) ''MessageText''))
               (get_xml_attr msg (qname (MNS env) ''MessageXml'')) = Inl e
            \<and> get_elements_in_response_loop env svc (msg # response) elements = Inl e))"
proof -
  let ?code = "get_xml_attr msg (qname (MNS env) ''ResponseCode'')"
  let ?text = "get_xml_attr msg (qname (MNS env) ''MessageText'')"
  let ?xml = "get_xml_attr msg (qname (MNS env) ''MessageXml'')"
  have gec: "get_element_container env msg name = raise_warnings env ?code ?text ?xml" for name
    using w by (simp add: get_element_container_def Let_def)
  have 1: "message_elements env svc msg = Inr [Status True None]" if "?code = Some ''NoError''"
    using that by (simp add: message_elements_def gec raise_warnings_def raise_errors_def)
  have 2: "message_elements env svc msg = Inr [Status False (Some (str ?text))]"
    if "?code = Some ''ErrorBatchProcessingStopped''"
    using that b
    by (simp add: message_elements_def gec raise_warnings_def raise_errors_def
        raise_by_name_def falsy_def)
  have 3: "\<exists>e. raise_errors env ?code ?text ?xml = Inl e \<and> message_elements env svc msg = Inl e"
    if "?code \<noteq> Some ''NoError''" "?code \<noteq> Some ''ErrorBatchProcessingStopped''"
      "?code \<noteq> Some ''EWSWarning''"
    using that
    by (auto simp: message_elements_def gec raise_warnings_def raise_errors_def
        raise_by_name_def falsy_def split: option.splits binding.splits)
  from 1 2 3 show ?thesis by auto
qed

theorem warning_message_outcome_witness:
  "get (warning_message ''ErrorBatchProcessingStopped'' (Some ''stopped'')) ''ResponseClass''
     = Some ''Warning''
   \<and> errors example_env ''ErrorBatchProcessingStopped'' = Some ErrorClass
   \<and> get_elements_in_response_loop example_env (DeleteItem ''https://example.com/EWS'' 15)
       [warning_message ''ErrorBatchProcessingStopped'' (Some ''stopped'')] [Status True None]
     = Inr [Status True None, Status False (Some ''stopped'')]"
proof -
  let ?m = "warning_message ''ErrorBatchProcessingStopped'' (Some ''stopped'')"
  have w: "get ?m ''ResponseClass'' = Some ''Warning''" by code_simp
  have b: "errors example_env ''ErrorBatchProcessingStopped'' = Some ErrorClass" by code_simp
  have c: "get_xml_attr ?m (qname (MNS example_env) ''ResponseCode'')
           = Some ''ErrorBatchProcessingStopped''" by code_simp
  have t: "get_xml_attr ?m (qname (MNS example_env) ''MessageText'') = Some ''stopped''"
    by code_simp
  from warning_message_outcome [OF w b, of "DeleteItem ''https://example.com/EWS'' 15" "[]" "[Status True None]"]
    c t w b
  show ?thesis by (simp add: str_def)
qed

section \<open>SOAP faults\<close>

lemma get_xml_attr_nonempty: "get_xml_attr e n = Some c \<Longrightarrow> c \<noteq> []"
  by (auto simp: get_xml_attr_def split: option.splits if_splits)

lemma get_xml_attr_find: "get_xml_attr e n = Some c \<Longrightarrow> find_elem e n \<noteq> None"
  by (auto simp: get_xml_attr_def split: option.splits if_splits)

lemma get_xml_attr_absent: "find_elem e n = None \<Longrightarrow> get_xml_attr e n = None"
  by (auto simp: get_xml_attr_def split: option.splits if_splits)

text \<open>
  C6. For a code that the module \<^verbatim>\<open>errors\<close> binds to a class (and that is not
  \<^verbatim>\<open>NoError\<close>, which is no error code), a SOAP fault whose detail has this response
  code and a response message with this response code raise an exception of the same
  class, the one bound to the code: the fault with the message of its detail, the
  response message with its message text.
\<close>

theorem soap_fault_same_error:
  assumes known: "errors env code = Some ErrorClass" and ne: "code \<noteq> ''NoError''"
    and detail: "find_elem fault ''detail'' = Some detail"
    and code: "get_xml_attr detail (qname (ENS env) ''ResponseCode'') = Some code"
  shows "raise_soap_errors env svc fault
           = EWSError code (get_xml_attr detail (qname (ENS env) ''Message''))
         \<and> raise_errors env (Some code) msg_text msg_xml = Inl (EWSError code msg_text)"
proof -
  from code have c: "code \<noteq> []" by (rule get_xml_attr_nonempty)
  from code have f: "find_elem detail (qname (ENS env) ''ResponseCode'') \<noteq> None"
    by (rule get_xml_attr_find)
  have m: "(if find_elem detail (qname (ENS env) ''Message'') \<noteq> None
            then get_xml_attr detail (qname (ENS env) ''Message'') else None)
           = get_xml_attr detail (qname (ENS env) ''Message'')"
    by (simp add: get_xml_attr_absent)
  have 1: "raise_soap_errors env svc fault
           = EWSError code (get_xml_attr detail (qname (ENS env) ''Message''))"
    unfolding raise_soap_errors_def Let_def
    using detail code f known by (auto simp: raise_by_name_def get_xml_attr_absent)
  have 2: "raise_errors env (Some code) msg_text msg_xml = Inl (EWSError code msg_text)"
    using known ne c by (simp add: raise_errors_def raise_by_name_def falsy_def)
  from 1 2 show ?thesis by simp
qed

theorem soap_fault_same_error_witness:
  "raise_soap_errors example_env (GetFolder example_env ''https://example.com/EWS'' 15)
     access_denied_fault = EWSError ''ErrorAccessDenied'' (Some ''Access is denied.'')
   \<and> raise_errors example_env (Some ''ErrorAccessDenied'') (Some ''No access'') None
       = Inl (EWSError ''ErrorAccessDenied'' (Some ''No access''))"
proof -
  have 1: "errors example_env ''ErrorAccessDenied'' = Some ErrorClass" by code_simp
  have 2: "''ErrorAccessDenied'' \<noteq> ''NoError''" by simp
  have 3: "find_elem access_denied_fault ''detail'' = Some (Element ''detail'' [] None
          [Element (qname (ENS example_env) ''ResponseCode'') [] (Some ''ErrorAccessDenied'') [],
           Element (qname (ENS example_env) ''Message'') [] (Some ''Access is denied.'') []])"
    by code_simp
  have 4: "get_xml_attr (Element ''detail'' [] None
          [Element (qname (ENS example_env) ''ResponseCode'') [] (Some ''ErrorAccessDenied'') [],
           Element (qname (ENS example_env) ''Message'') [] (Some ''Access is denied.'') []]) (qname (ENS example_env) ''ResponseCode'') = Some ''ErrorAccessDenied''"
    by code_simp
  have 5: "get_xml_attr (Element ''detail'' [] None
          [Element (qname (ENS example_env) ''ResponseCode'') [] (Some ''ErrorAccessDenied'') [],
           Element (qname (ENS example_env) ''Message'') [] (Some ''Access is denied.'') []]) (qname (ENS example_env) ''Message'') = Some ''Access is denied.''"
    by code_simp
  from soap_fault_same_error [OF 1 2 3 4, of "GetFolder example_env ''https://example.com/EWS'' 15" "Some ''No access''" None] 5
  show ?thesis by simp
qed

section \<open>The elements of a container\<close>

text \<open>
  C10. \<^verbatim>\<open>EWSService._get_elements_in_container\<close> returns the elements of the primary
  name, in document order, and then those of each extra name in the order of
  declaration; this is so for \<^verbatim>\<open>FindFolder\<close> and \<^verbatim>\<open>GetFolder\<close> with their four extra names.
  A container whose calendar folder comes before a plain folder gives the plain folder
  first: the elements are grouped by type, not in document order.
\<close>

theorem get_elements_in_container_grouped:
  "(service_class svc = EWSService_class \<and> element_name svc = Some name \<longrightarrow>
      get_elements_in_container svc c
      = Inr (map Found (findall c name @ concat (map (findall c) (extra_element_names svc)))))
   \<and> get_elements_in_container (FindFolder env url version) c
      = Inr (map Found (findall c (qname (TNS env) ''Folder'')
               @ findall c (qname (TNS env) ''CalendarFolder'')
               @ findall c (qname (TNS env) ''ContactsFolder'')
               @ findall c (qname (TNS env) ''SearchFolder'')
               @ findall c (qname (TNS env) ''TasksFolder'')))
   \<and> get_elements_in_container (GetFolder env url version) c
      = Inr (map Found (findall c (qname (TNS env) ''Folder'')
               @ findall c (qname (TNS env) ''CalendarFolder'')
               @ findall c (qname (TNS env) ''ContactsFolder'')
               @ findall c (qname (TNS env) ''SearchFolder'')
               @ findall c (qname (TNS env) ''TasksFolder'')))
   \<and> (tag a = qname (TNS env) ''CalendarFolder'' \<and> tag b = qname (TNS env) ''Folder''
        \<and> children c = [a, b] \<longrightarrow>
      get_elements_in_container (FindFolder env url version) c = Inr [Found b, Found a])"
  by (simp add: get_elements_in_container_def EWSService_get_elements_in_container_def
      FindFolder_def GetFolder_def findall_def qname_def)

theorem get_elements_in_container_grouped_witness:
  "service_class (GetFolder example_env ''https://example.com/EWS'' 15) = EWSService_class
   \<and> element_name (GetFolder example_env ''https://example.com/EWS'' 15)
       = Some (qname (TNS example_env) ''Folder'')
   \<and> get_elements_in_container (GetFolder example_env ''https://example.com/EWS'' 15) mixed_folders
     = Inr [Found (Element (qname (TNS example_env) ''Folder'') [] (Some ''inbox'') []),
            Found (Element (qname (TNS example_env) ''Folder'') [] (Some ''drafts'') []),
            Found (Element (qname (TNS example_env) ''CalendarFolder'') [] (Some ''calendar'') []),
            Found (Element (qname (TNS example_env) ''SearchFolder'') [] (Some ''search'') [])]
   \<and> children mixed_folders
     = [Element (qname (TNS example_env) ''CalendarFolder'') [] (Some ''calendar'') [],
        Element (qname (TNS example_env) ''Folder'') [] (Some ''inbox'') [],
        Element (qname (TNS example_env) ''SearchFolder'') [] (Some ''search'') [],
        Element (qname (TNS example_env) ''Folder'') [] (Some ''drafts'') []]"
proof -
  let ?svc = "GetFolder example_env ''https://example.com/EWS'' 15"
  have 1: "service_class ?svc = EWSService_class" by (simp add: GetFolder_def)
  have 2: "element_name ?svc = Some (qname (TNS example_env) ''Folder'')"
    by (simp add: GetFolder_def)
  have 3: "map Found (findall mixed_folders (qname (TNS example_env) ''Folder'')
             @ concat (map (findall mixed_folders) (extra_element_names ?svc)))
           = [Found (Element (qname (TNS example_env) ''Folder'') [] (Some ''inbox'') []),
            Found (Element (qname (TNS example_env) ''Folder'') [] (Some ''drafts'') []),
            Found (Element (qname (TNS example_env) ''CalendarFolder'') [] (Some ''calendar'') []),
            Found (Element (qname (TNS example_env) ''SearchFolder'') [] (Some ''search'') [])]"
    by code_simp
  have 4: "children mixed_folders
     = [Element (qname (TNS example_env) ''CalendarFolder'') [] (Some ''calendar'') [],
        Element (qname (TNS example_env) ''Folder'') [] (Some ''inbox'') [],
        Element (qname (TNS example_env) ''SearchFolder'') [] (Some ''search'') [],
        Element (qname (TNS example_env) ''Folder'') [] (Some ''drafts'') []]"
    by (simp add: mixed_folders_def)
  have g: "get_elements_in_container ?svc mixed_folders
           = Inr (map Found (findall mixed_folders (qname (TNS example_env) ''Folder'')
                    @ concat (map (findall mixed_folders) (extra_element_names ?svc))))"
    using get_elements_in_container_grouped [of ?svc "qname (TNS example_env) ''Folder''" mixed_folders] 1 2 by blast
  show ?thesis unfolding g 3 using 1 2 4 by simp
qed

section \<open>The pager\<close>

lemma py_int_1: "py_int (Some ''1'') = Inr 1"
  by code_simp

lemma get_response_xml_XML:
  "srv posted payload = XML soap \<Longrightarrow>
   get_response_xml env svc srv posted payload = (get_soap_payload env svc soap, posted @ [payload])"
  by (simp add: get_response_xml_def)

text \<open>
  C2, as the code has it. The first page has \<^verbatim>\<open>TotalItemsInView\<close> 0, is not the last
  page and has the offset 5: the assertion of \<^verbatim>\<open>_get_page\<close> fails and the retrieval
  ends in \<^verbatim>\<open>AssertionError\<close>.
\<close>

theorem empty_view_not_last_counterexample:
  "paged_call example_env find_item empty_view_server page_request []
   = Some (Inl AssertionError,
       [Element ''m:FindItem'' [(''Traversal'', ''Shallow'')] None
       [Element ''m:IndexedPageItemView''
          [(''Offset'', ''0''), (''BasePoint'', ''Beginning'')] None []]])"
  by code_simp

text \<open>
  C2, amended. A page is fetched and its \<^verbatim>\<open>TotalItemsInView\<close> parses to 0. When the
  page is the last (\<^verbatim>\<open>IncludesLastItemInRange\<close> is \<^verbatim>\<open>true\<close> or \<^verbatim>\<open>0\<close>, in any case of
  letters) or its \<^verbatim>\<open>IndexedPagingOffset\<close> parses to 0, the page gives no elements, the
  retrieval returns what it had gathered and this fetch was its last. When the page is
  not the last and its offset is absent or parses to another number, the assertion fails
  and the retrieval ends in \<^verbatim>\<open>AssertionError\<close> after this fetch.
\<close>

theorem empty_view_stops_or_asserts:
  assumes p: "get_payload offset = Inr payload"
    and s: "srv posted payload = XML soap"
    and m: "get_soap_payload env svc soap = Inr [message]"
    and r: "get_element_container env message (Some (qname (MNS env) ''RootFolder''))
            = Inr (PyElement rootfolder)"
    and l: "get rootfolder ''IncludesLastItemInRange'' = Some includes_last"
    and t: "py_int (get rootfolder ''TotalItemsInView'') = Inr 0"
  shows
    "(lower includes_last = ''true'' \<or> lower includes_last = ''0''
        \<or> py_int (get rootfolder ''IndexedPagingOffset'') = Inr 0 \<longrightarrow>
      get_page env [message] = Inr (None, 0)
      \<and> paged_call_loop env svc srv get_payload offset elements posted
        = Some (Inr elements, posted @ [payload]))
     \<and> (lower includes_last \<noteq> ''true'' \<and> lower includes_last \<noteq> ''0''
        \<and> (get rootfolder ''IndexedPagingOffset'' = None
            \<or> (\<exists>n. n \<noteq> 0 \<and> py_int (get rootfolder ''IndexedPagingOffset'') = Inr n)) \<longrightarrow>
      get_page env [message] = Inl AssertionError
      \<and> paged_call_loop env svc srv get_payload offset elements posted
        = Some (Inl AssertionError, posted @ [payload]))"
proof -
  let ?last = "lower includes_last = ''true'' \<or> lower includes_last = ''0''"
  let ?off = "get rootfolder ''IndexedPagingOffset''"
  have x: "get_response_xml env svc srv posted payload = (Inr [message], posted @ [payload])"
    using s m by (simp add: get_response_xml_XML)
  have stop: "get_page env [message] = Inr (None, 0)" if "?last \<or> py_int ?off = Inr 0"
  proof (cases ?last)
    case True
    then show ?thesis using r l t by (auto simp: get_page_def Let_def)
  next
    case False
    with that have z: "py_int ?off = Inr 0" by simp
    then have "?off \<noteq> None" by (auto simp: py_int_def split: option.splits)
    with False z show ?thesis using r l t by (auto simp: get_page_def Let_def)
  qed
  have fail: "get_page env [message] = Inl AssertionError"
    if "\<not> ?last" "?off = None \<or> (\<exists>n. n \<noteq> 0 \<and> py_int ?off = Inr n)"
    using that r l t by (auto simp: get_page_def Let_def py_int_1)
  have loop_stop: "paged_call_loop env svc srv get_payload offset elements posted
        = Some (Inr elements, posted @ [payload])" if "get_page env [message] = Inr (None, 0)"
    by (subst paged_call_loop.simps) (simp add: p x that page_elements_def)
  have loop_fail: "paged_call_loop env svc srv get_payload offset elements posted
        = Some (Inl AssertionError, posted @ [payload])"
    if "get_page env [message] = Inl AssertionError"
    by (subst paged_call_loop.simps) (simp add: p x that)
  from stop fail loop_stop loop_fail show ?thesis by blast
qed

theorem empty_view_stops_or_asserts_witness:
  "get (root_folder empty_last_attrs []) ''IncludesLastItemInRange'' = Some ''true''
   \<and> py_int (get (root_folder empty_last_attrs []) ''TotalItemsInView'') = Inr 0
   \<and> paged_call example_env find_item empty_last_server page_request []
     = Some (Inr [], [first_request])"
proof -
  let ?soap = "page_response empty_last_attrs []"
  let ?msg = "response_message example_env ''FindItem'' ''Success'' ''NoError'' None
          [root_folder empty_last_attrs []]"
  have p: "page_request 0 = Inr first_request"
    by (simp add: page_request_def first_request_def)
  have s: "empty_last_server [] first_request = XML ?soap"
    by (simp add: empty_last_server_def empty_last_attrs_def)
  have m: "get_soap_payload example_env find_item ?soap = Inr [?msg]"
    by code_simp
  have r: "get_element_container example_env ?msg (Some (qname (MNS example_env) ''RootFolder''))
           = Inr (PyElement (root_folder empty_last_attrs []))"
    by code_simp
  have l: "get (root_folder empty_last_attrs []) ''IncludesLastItemInRange'' = Some ''true''"
    by code_simp
  have t: "py_int (get (root_folder empty_last_attrs []) ''TotalItemsInView'') = Inr 0"
    by code_simp
  have lw: "lower ''true'' = ''true''" by code_simp
  from empty_view_stops_or_asserts [where get_payload = page_request and offset = 0 and srv = empty_last_server
      and posted = "[]" and elements = "[]", OF p s m r l t] lw l t
  show ?thesis by (simp add: paged_call_def)
qed

text \<open>
  C7, as the code has it. The page is not the last, has no offset, and its
  \<^verbatim>\<open>TotalItemsInView\<close> is 0: \<^verbatim>\<open>_get_page\<close> assumes the offset 1, the assertion that the
  next offset of an empty view is 0 fails, and the retrieval ends in \<^verbatim>\<open>AssertionError\<close>.
\<close>

theorem missing_offset_empty_view_counterexample:
  "get (root_folder [(''IncludesLastItemInRange'', ''false''), (''TotalItemsInView'', ''0'')] [])
     ''IndexedPagingOffset'' = None
   \<and> get_page example_env
       [response_message example_env ''FindItem'' ''Success'' ''NoError'' None
          [root_folder [(''IncludesLastItemInRange'', ''false''), (''TotalItemsInView'', ''0'')] []]]
     = Inl AssertionError
   \<and> paged_call example_env find_item no_offset_empty_server page_request []
     = Some (Inl AssertionError, [first_request])"
  by code_simp

text \<open>
  C7, amended. A page is fetched whose root folder has the attribute
  \<^verbatim>\<open>IncludesLastItemInRange\<close> with a value other than \<^verbatim>\<open>true\<close> and \<^verbatim>\<open>0\<close>, has no
  \<^verbatim>\<open>IndexedPagingOffset\<close>, and whose \<^verbatim>\<open>TotalItemsInView\<close> parses to a number other than
  0. Then \<^verbatim>\<open>_get_page\<close> does not fail and returns the root folder with the next offset 1,
  and when the elements of the page are extracted the retrieval goes on as the retrieval
  from the offset 1, with these elements added and the payload posted.
\<close>

theorem missing_offset_assumes_1:
  assumes p: "get_payload offset = Inr payload"
    and s: "srv posted payload = XML soap"
    and m: "get_soap_payload env svc soap = Inr [message]"
    and r: "get_element_container env message (Some (qname (MNS env) ''RootFolder''))
            = Inr (PyElement rootfolder)"
    and l: "get rootfolder ''IncludesLastItemInRange'' = Some includes_last"
    and nl: "lower includes_last \<noteq> ''true''" "lower includes_last \<noteq> ''0''"
    and no: "get rootfolder ''IndexedPagingOffset'' = None"
    and t: "py_int (get rootfolder ''TotalItemsInView'') = Inr total_items" "total_items \<noteq> 0"
  shows
    "get_page env [message] = Inr (Some rootfolder, 1)
     \<and> (page_elements env svc (Some rootfolder) = Inr new \<longrightarrow>
        paged_call_loop env svc srv get_payload offset elements posted
        = paged_call_loop env svc srv get_payload 1 (elements @ new) (posted @ [payload]))"
proof -
  have x: "get_response_xml env svc srv posted payload = (Inr [message], posted @ [payload])"
    using s m by (simp add: get_response_xml_XML)
  have g: "get_page env [message] = Inr (Some rootfolder, 1)"
    using r l nl no t by (simp add: get_page_def Let_def py_int_1)
  have "paged_call_loop env svc srv get_payload offset elements posted
        = paged_call_loop env svc srv get_payload 1 (elements @ new) (posted @ [payload])"
    if "page_elements env svc (Some rootfolder) = Inr new"
    by (subst paged_call_loop.simps) (simp add: p x g that)
  with g show ?thesis by blast
qed

theorem missing_offset_assumes_1_witness:
  "get (root_folder no_offset_attrs [item ''first'']) ''IndexedPagingOffset'' = None
   \<and> get (root_folder no_offset_attrs [item ''first'']) ''IncludesLastItemInRange'' = Some ''false''
   \<and> get_page example_env
       [response_message example_env ''FindItem'' ''Success'' ''NoError'' None
          [root_folder no_offset_attrs [item ''first'']]]
     = Inr (Some (root_folder no_offset_attrs [item ''first'']), 1)
   \<and> paged_call example_env find_item no_offset_server page_request []
     = Some (Inr [Found (item ''first''), Found (item ''second'')],
             [first_request, second_request])"
proof -
  let ?root = "root_folder no_offset_attrs [item ''first'']"
  let ?soap = "page_response no_offset_attrs [item ''first'']"
  let ?msg = "response_message example_env ''FindItem'' ''Success'' ''NoError'' None [?root]"
  have p: "page_request 0 = Inr first_request"
    by (simp add: page_request_def first_request_def)
  have s: "no_offset_server [] first_request = XML ?soap"
    by (simp add: no_offset_server_def no_offset_attrs_def)
  have m: "get_soap_payload example_env find_item ?soap = Inr [?msg]"
    by code_simp
  have r: "get_element_container example_env ?msg (Some (qname (MNS example_env) ''RootFolder''))
           = Inr (PyElement ?root)"
    by code_simp
  have l: "get ?root ''IncludesLastItemInRange'' = Some ''false''"
    by code_simp
  have nl: "lower ''false'' \<noteq> ''true''" "lower ''false'' \<noteq> ''0''"
    by code_simp+
  have no: "get ?root ''IndexedPagingOffset'' = None"
    by code_simp
  have t: "py_int (get ?root ''TotalItemsInView'') = Inr 2" "(2::int) \<noteq> 0"
    by code_simp+
  have e: "page_elements example_env find_item (Some ?root) = Inr [Found (item ''first'')]"
    by code_simp
  have rest: "paged_call_loop example_env find_item no_offset_server page_request 1
                ([] @ [Found (item ''first'')]) ([] @ [first_request])
              = Some (Inr [Found (item ''first''), Found (item ''second'')],
                      [first_request, second_request])"
    by code_simp
  from missing_offset_assumes_1 [where get_payload = page_request and offset = 0 and srv = no_offset_server
      and posted = "[]" and elements = "[]" and new = "[Found (item ''first'')]",
      OF p s m r l nl no t] e rest no l
  show ?thesis by (simp add: paged_call_def)
qed

section \<open>The chunked dispatcher\<close>

















end
